theory Spec2Isabelle
  imports Complex_Main "HOL-Library.Sublist"
begin

section \<open>The webhook relay of bot.py\<close>

text \<open>
  A shallow embedding of the request handler \<open>webhook\<close> of \<^verbatim>\<open>src/bot.py\<close>.
  The handler is one Python function; it is embedded as the function \<open>webhook\<close>
  below, cut at the source's own comment lines into the token check (lines 41 to 53),
  the dispatch on the event (lines 55 to 79), the session lookup and creation
  (lines 79 to 94), the forwarding of the message (lines 97 to 106) and the extraction
  of the reply (lines 109 to 126).

  The module-level dictionary \<open>chat_sessions\<close> is passed in and returned; the
  calls of \<open>requests.post\<close> are returned as a trace; an exception that leaves the
  handler, and a call that never returns, are outcomes of their own. Logging is not
  modelled.
\<close>

subsection \<open>Python values read from JSON\<close>

text \<open>
  What \<open>json.loads\<close> returns: \<open>None\<close>, a bool, an int, a float, a str, a list or a
  dict with str keys. A dict is the list of its items; a key occurs once.
  A float carries its (finite) numeric value.
\<close>

datatype json =
    JNull
  | JBool bool
  | JInt int
  | JFloat rat
  | JStr string
  | JArr "json list"
  | JObj "(string \<times> json) list"

datatype exn =
    BadRequest
  | AttributeError
  | TypeError
  | JSONDecodeError

text \<open>Python's truth value of an object: \<open>not x\<close>, \<open>x or y\<close>, \<open>x and y\<close>.\<close>

fun truthy :: "json \<Rightarrow> bool" where
  "truthy JNull = False"
| "truthy (JBool b) = b"
| "truthy (JInt n) = (n \<noteq> 0)"
| "truthy (JFloat x) = (x \<noteq> 0)"
| "truthy (JStr s) = (s \<noteq> [])"
| "truthy (JArr xs) = (xs \<noteq> [])"
| "truthy (JObj kvs) = (kvs \<noteq> [])"

text \<open>
  \<open>d.get(k, default)\<close>: a dict answers; every other JSON value has no attribute
  \<open>get\<close>, and the attribute access raises AttributeError.
\<close>

fun py_get :: "json \<Rightarrow> string \<Rightarrow> json \<Rightarrow> exn + json" where
  "py_get (JObj kvs) k d = Inr (case map_of kvs k of None \<Rightarrow> d | Some v \<Rightarrow> v)"
| "py_get _ k d = Inl AttributeError"

text \<open>\<open>sub in s\<close> on two strings: \<open>sub\<close> occurs in \<open>s\<close>.\<close>

fun str_contains :: "string \<Rightarrow> string \<Rightarrow> bool" where
  "str_contains [] sub = (sub = [])"
| "str_contains (c # cs) sub = (prefix sub (c # cs) \<or> str_contains cs sub)"

text \<open>
  \<open>k in x\<close> for a str \<open>k\<close>: key membership in a dict, element membership in a
  list, substring test on a str; the other values are not iterable (TypeError).
\<close>

fun py_in :: "string \<Rightarrow> json \<Rightarrow> exn + bool" where
  "py_in k (JObj kvs) = Inr (map_of kvs k \<noteq> None)"
| "py_in k (JArr xs) = Inr (JStr k \<in> set xs)"
| "py_in k (JStr s) = Inr (str_contains s k)"
| "py_in k _ = Inl TypeError"

text \<open>
  \<open>x[k]\<close> for a str \<open>k\<close>, used after \<open>k in x\<close> held: the dict's value; a list
  and a str take integer indices only (TypeError).
\<close>

fun py_getitem :: "json \<Rightarrow> string \<Rightarrow> exn + json" where
  "py_getitem (JObj kvs) k = (case map_of kvs k of None \<Rightarrow> Inl TypeError | Some v \<Rightarrow> Inr v)"
| "py_getitem _ k = Inl TypeError"

subsection \<open>Text of a value\<close>

text \<open>The decimal digits of a natural number, and \<open>str(i)\<close> for an int.\<close>

definition digit :: "nat \<Rightarrow> char" where
  "digit d = ''0123456789'' ! d"

fun decimal :: "nat \<Rightarrow> string" where
  "decimal n = (if n div 10 = 0 then [digit n] else decimal (n div 10) @ [digit (n mod 10)])"

definition int_text :: "int \<Rightarrow> string" where
  "int_text i = (if 0 \<le> i then decimal (nat i) else CHR ''-'' # decimal (nat (- i)))"

text \<open>
  \<open>str(x)\<close>, as an f-string applies it. The text of a float, a list or a dict
  (Python's \<open>repr\<close>) is left to the parameter \<open>repr\<close>.
\<close>

fun py_str :: "(json \<Rightarrow> string) \<Rightarrow> json \<Rightarrow> string" where
  "py_str repr JNull = ''None''"
| "py_str repr (JBool b) = (if b then ''True'' else ''False'')"
| "py_str repr (JInt n) = int_text n"
| "py_str repr (JStr s) = s"
| "py_str repr v = repr v"

subsection \<open>Keys of the session dictionary\<close>

text \<open>
  A dict key is hashed; a list and a dict are unhashable (TypeError). Python's
  \<open>True\<close>, \<open>1\<close> and \<open>1.0\<close> are equal and hash alike, so they are one key.
\<close>

datatype key = KNone | KNum rat | KStr string

fun py_hash :: "json \<Rightarrow> exn + key" where
  "py_hash JNull = Inr KNone"
| "py_hash (JBool b) = Inr (KNum (if b then 1 else 0))"
| "py_hash (JInt n) = Inr (KNum (of_int n))"
| "py_hash (JFloat x) = Inr (KNum x)"
| "py_hash (JStr s) = Inr (KStr s)"
| "py_hash (JArr xs) = Inl TypeError"
| "py_hash (JObj kvs) = Inl TypeError"

text \<open>\<open>chat_sessions\<close>: conversation key to the stored chat id (any value, \<open>None\<close> included).\<close>

type_synonym sessions = "key \<rightharpoonup> json"

subsection \<open>\<open>str.split\<close> and the bearer token\<close>

text \<open>
  \<open>s.split(sep)\<close> for a non-empty \<open>sep\<close>: the pieces between the occurrences of
  \<open>sep\<close>, found from the left without overlap. \<open>cur\<close> is the piece being read.
\<close>

fun split_from :: "string \<Rightarrow> string \<Rightarrow> string \<Rightarrow> string list" where
  "split_from sep cur [] = [cur]"
| "split_from sep cur (c # cs) =
     (if sep \<noteq> [] \<and> prefix sep (c # cs)
      then cur # split_from sep [] (drop (length sep) (c # cs))
      else split_from sep (cur @ [c]) cs)"

definition py_split :: "string \<Rightarrow> string \<Rightarrow> string list" where
  "py_split s sep = split_from sep [] s"

text \<open>
  Line 42:
  \<^verbatim>\<open>token = auth_header.split('Bearer ')[-1] if auth_header.startswith('Bearer ') else None\<close>
\<close>

definition bearer_token :: "string \<Rightarrow> string option" where
  "bearer_token auth_header =
     (if prefix ''Bearer '' auth_header then Some (last (py_split auth_header ''Bearer ''))
      else None)"

subsection \<open>The libraries the handler calls\<close>

text \<open>
  PyJWT. \<open>get_signing_key_from_jwt\<close> fetches the key set and may fail; \<open>jwt.decode\<close>
  checks signature, algorithm, audience, issuer and expiry. Both raise on failure.
  What they answer for a token is a parameter: the handler only tells success from
  an exception.
\<close>

datatype jwt_error =
    KeyFetchFailure
  | MalformedToken
  | BadSignature
  | WrongAlgorithm
  | WrongAudience
  | WrongIssuer
  | Expired

type_synonym signing_key = string

text \<open>
  A call of \<open>requests.post(url, headers=..., json=..., timeout=...)\<close>: \<open>timeout\<close> is
  \<open>None\<close> where the call passes none.
\<close>

record http_request =
  url :: string
  headers :: "(string \<times> string) list"
  json_body :: json
  timeout :: "nat option"

text \<open>
  What the remote server does with a request: it cannot be reached, it accepts the
  connection and never answers, or it answers with a status and a body that is
  JSON (\<open>Some\<close>) or not (\<open>None\<close>).
\<close>

datatype server = Unreachable | Silent | Answers nat "json option"

text \<open>
  \<open>requests.post\<close>: raises on a network error; on a silent server it raises
  \<open>Timeout\<close> after the given seconds, and without a timeout it waits forever.
\<close>

datatype post_result = PostRaised | PostNoReturn | PostReturned nat "json option"

definition requests_post :: "(http_request \<Rightarrow> server) \<Rightarrow> http_request \<Rightarrow> post_result" where
  "requests_post srv rq =
     (case srv rq of
        Unreachable \<Rightarrow> PostRaised
      | Silent \<Rightarrow> (case timeout rq of None \<Rightarrow> PostNoReturn | Some secs \<Rightarrow> PostRaised)
      | Answers st b \<Rightarrow> PostReturned st b)"

text \<open>\<open>resp.raise_for_status()\<close> raises \<open>HTTPError\<close> for a 4xx or 5xx status only.\<close>

definition raise_for_status :: "nat \<Rightarrow> bool" where
  "raise_for_status st = (400 \<le> st \<and> st < 600)"

text \<open>
  The module's configuration (lines 26 to 33) and the behaviour of what it talks to.
\<close>

record env =
  GCP_PROJECT_NUMBER :: string
  OWUI_API_URL :: string
  OWUI_API_KEY :: string
  get_signing_key_from_jwt :: "string \<Rightarrow> jwt_error + signing_key"
  jwt_decode :: "string \<Rightarrow> signing_key \<Rightarrow> string list \<Rightarrow> string \<Rightarrow> string \<Rightarrow> jwt_error + unit"
  backend :: "http_request \<Rightarrow> server"
  repr :: "json \<Rightarrow> string"

subsection \<open>The handler\<close>

text \<open>The inbound request: the Authorization header, and the body as \<open>get_json\<close> reads it
  (\<open>None\<close>: the body is not JSON, and Flask's \<open>get_json\<close> aborts the request with
  \<open>BadRequest\<close>).\<close>

record request =
  authorization :: "string option"
  body :: "json option"

datatype outcome = Response nat json | Raises exn | NoReturn

text \<open>The calls of the backend, in order, named by the place that makes them
  (line 82 and line 99).\<close>

datatype call = CreateSession http_request | SendMessage http_request

type_synonym result = "outcome \<times> sessions \<times> call list"

definition unauthorized :: outcome where
  "unauthorized = Response 401 (JObj [(''error'', JStr ''Unauthorized'')])"

definition text_reply :: "json \<Rightarrow> outcome" where
  "text_reply t = Response 200 (JObj [(''text'', t)])"

definition empty_reply :: outcome where
  "empty_reply = Response 200 (JObj [])"

definition apology_text :: string where
  "apology_text = ''Sorry, I couldn'' @ [CHR 0x27] @ ''t start a session with the AI.''"

text \<open>The text of line 106 starts with U+26A0 U+FE0F, here as its UTF-8 bytes.\<close>

definition unavailable_text :: string where
  "unavailable_text =
     [CHR 0xE2, CHR 0x9A, CHR 0xA0, CHR 0xEF, CHR 0xB8, CHR 0x8F]
       @ '' Error: The AI service is unavailable at the moment.''"

definition no_response_text :: string where
  "no_response_text = ''*(No response from AI)*''"

text \<open>Lines 47 to 49, inside the \<open>try\<close>.\<close>

definition verify_token :: "env \<Rightarrow> string \<Rightarrow> jwt_error + unit" where
  "verify_token e token =
     (case get_signing_key_from_jwt e token of
        Inl err \<Rightarrow> Inl err
      | Inr signing_key \<Rightarrow>
          jwt_decode e token signing_key [''RS256''] (GCP_PROJECT_NUMBER e)
            ''chat@system.gserviceaccount.com'')"

definition auth_headers :: "env \<Rightarrow> (string \<times> string) list" where
  "auth_headers e =
     [(''Authorization'', ''Bearer '' @ OWUI_API_KEY e), (''Content-Type'', ''application/json'')]"

text \<open>The request of lines 82 to 85: no \<open>timeout\<close> argument.\<close>

definition create_request :: "env \<Rightarrow> http_request" where
  "create_request e =
     \<lparr>url = OWUI_API_URL e @ ''/chats/new'', headers = auth_headers e,
      json_body = JObj [(''chat'', JObj [])], timeout = None\<rparr>"

text \<open>The request of lines 98 to 102.\<close>

definition send_request :: "env \<Rightarrow> json \<Rightarrow> json \<Rightarrow> http_request" where
  "send_request e chat_id user_message =
     \<lparr>url = OWUI_API_URL e @ ''/chats/'' @ py_str (repr e) chat_id, headers = auth_headers e,
      json_body = JObj [(''chat'', JObj [(''content'', user_message), (''role'', JStr ''user'')])],
      timeout = Some 15\<rparr>"

text \<open>Line 90: \<^verbatim>\<open>chat_id = resp.json().get("id") or resp.json().get("chat_id")\<close>.\<close>

definition chat_id_of :: "json option \<Rightarrow> exn + json" where
  "chat_id_of b =
     (case b of
        None \<Rightarrow> Inl JSONDecodeError
      | Some j \<Rightarrow>
          (case py_get j ''id'' JNull of
             Inl ex \<Rightarrow> Inl ex
           | Inr a \<Rightarrow> if truthy a then Inr a else py_get j ''chat_id'' JNull))"

text \<open>Lines 111 to 123, on \<open>owui_data\<close>.\<close>

definition chat_turn :: "json \<Rightarrow> exn + json" where
  "chat_turn owui_data =
     (case py_in ''chat'' owui_data of
        Inl ex \<Rightarrow> Inl ex
      | Inr False \<Rightarrow> Inr (JStr [])
      | Inr True \<Rightarrow>
          (case py_getitem owui_data ''chat'' of
             Inl ex \<Rightarrow> Inl ex
           | Inr chat \<Rightarrow>
               (case py_get chat ''content'' JNull of
                  Inl ex \<Rightarrow> Inl ex
                | Inr content \<Rightarrow>
                    (case py_get chat ''role'' JNull of
                       Inl ex \<Rightarrow> Inl ex
                     | Inr role \<Rightarrow>
                         if role = JStr ''assistant'' \<and> truthy content then Inr content
                         else Inr (JStr [])))))"

definition other_fields :: "json \<Rightarrow> exn + json" where
  "other_fields owui_data =
     (case py_get owui_data ''assistant'' (JObj []) of
        Inl ex \<Rightarrow> Inl ex
      | Inr a \<Rightarrow>
          (case py_get a ''content'' JNull of
             Inl ex \<Rightarrow> Inl ex
           | Inr c \<Rightarrow> if truthy c then Inr c else py_get owui_data ''content'' (JStr [])))"

definition extract_reply :: "json \<Rightarrow> exn + json" where
  "extract_reply owui_data =
     (case chat_turn owui_data of
        Inl ex \<Rightarrow> Inl ex
      | Inr r1 \<Rightarrow>
          (case (if \<not> truthy r1 then other_fields owui_data else Inr r1) of
             Inl ex \<Rightarrow> Inl ex
           | Inr r2 \<Rightarrow> Inr (if \<not> truthy r2 then JStr no_response_text else r2)))"

text \<open>Lines 97 to 126: forward the message to the chat \<open>chat_id\<close>.\<close>

definition forward :: "env \<Rightarrow> sessions \<Rightarrow> call list \<Rightarrow> json \<Rightarrow> json \<Rightarrow> result" where
  "forward e chat_sessions calls chat_id user_message =
     (let rq = send_request e chat_id user_message;
          calls' = calls @ [SendMessage rq]
      in case requests_post (backend e) rq of
           PostRaised \<Rightarrow> (text_reply (JStr unavailable_text), chat_sessions, calls')
         | PostNoReturn \<Rightarrow> (NoReturn, chat_sessions, calls')
         | PostReturned st b \<Rightarrow>
             if raise_for_status st
             then (text_reply (JStr unavailable_text), chat_sessions, calls')
             else (case b of
                     None \<Rightarrow> (Raises JSONDecodeError, chat_sessions, calls')
                   | Some owui_data \<Rightarrow>
                       (case extract_reply owui_data of
                          Inl ex \<Rightarrow> (Raises ex, chat_sessions, calls')
                        | Inr assistant_reply \<Rightarrow>
                            (text_reply assistant_reply, chat_sessions, calls'))))"

text \<open>Lines 79 to 94, then \<open>forward\<close>: \<open>space_id\<close> is the hashed conversation key.\<close>

definition relay :: "env \<Rightarrow> sessions \<Rightarrow> key \<Rightarrow> json \<Rightarrow> result" where
  "relay e chat_sessions space_id user_message =
     (case chat_sessions space_id of
        None \<Rightarrow>
          (let rq = create_request e in
           case requests_post (backend e) rq of
             PostRaised \<Rightarrow> (text_reply (JStr apology_text), chat_sessions, [CreateSession rq])
           | PostNoReturn \<Rightarrow> (NoReturn, chat_sessions, [CreateSession rq])
           | PostReturned st b \<Rightarrow>
               if raise_for_status st
               then (text_reply (JStr apology_text), chat_sessions, [CreateSession rq])
               else (case chat_id_of b of
                       Inl ex \<Rightarrow> (Raises ex, chat_sessions, [CreateSession rq])
                     | Inr chat_id \<Rightarrow>
                         forward e (chat_sessions(space_id \<mapsto> chat_id)) [CreateSession rq]
                           chat_id user_message))
      | Some chat_id \<Rightarrow> forward e chat_sessions [] chat_id user_message)"

text \<open>\<open>event.get(field, {}).get(name, default)\<close>, as lines 62, 67, 73 and 78 read the event.\<close>

definition nested_get :: "json \<Rightarrow> string \<Rightarrow> string \<Rightarrow> json \<Rightarrow> exn + json" where
  "nested_get event field name d =
     (case py_get event field (JObj []) of
        Inl ex \<Rightarrow> Inl ex
      | Inr inner \<Rightarrow> py_get inner name d)"

text \<open>Lines 59 to 79: the dispatch on the event's type.\<close>

definition route :: "env \<Rightarrow> sessions \<Rightarrow> json \<Rightarrow> result" where
  "route e chat_sessions event =
     (case py_get event ''type'' JNull of
        Inl ex \<Rightarrow> (Raises ex, chat_sessions, [])
      | Inr event_type \<Rightarrow>
          if event_type = JStr ''ADDED_TO_SPACE'' then
            (case nested_get event ''user'' ''displayName'' (JStr ''there'') of
               Inl ex \<Rightarrow> (Raises ex, chat_sessions, [])
             | Inr user_name \<Rightarrow>
                 (text_reply (JStr (''Hello '' @ py_str (repr e) user_name
                    @ '', I'' @ [CHR 0x27] @ ''m your OpenWebUI bot! Ask me anything.'')),
                  chat_sessions, []))
          else if event_type = JStr ''REMOVED_FROM_SPACE'' then
            (case nested_get event ''space'' ''name'' JNull of
               Inl ex \<Rightarrow> (Raises ex, chat_sessions, [])
             | Inr space \<Rightarrow>
                 (case py_hash space of
                    Inl ex \<Rightarrow> (Raises ex, chat_sessions, [])
                  | Inr k \<Rightarrow>
                      (empty_reply,
                       if chat_sessions k \<noteq> None then chat_sessions(k := None) else chat_sessions,
                       [])))
          else
            (case nested_get event ''message'' ''text'' (JStr []) of
               Inl ex \<Rightarrow> (Raises ex, chat_sessions, [])
             | Inr user_message \<Rightarrow>
                 if \<not> truthy user_message then (empty_reply, chat_sessions, [])
                 else
                   (case nested_get event ''space'' ''name'' JNull of
                      Inl ex \<Rightarrow> (Raises ex, chat_sessions, [])
                    | Inr space_id \<Rightarrow>
                        (case py_hash space_id of
                           Inl ex \<Rightarrow> (Raises ex, chat_sessions, [])
                         | Inr k \<Rightarrow> relay e chat_sessions k user_message))))"

text \<open>Line 41: \<^verbatim>\<open>request.headers.get('Authorization', '')\<close>.\<close>

definition auth_header :: "request \<Rightarrow> string" where
  "auth_header rq = (case authorization rq of None \<Rightarrow> [] | Some h \<Rightarrow> h)"

text \<open>
  The handler. Lines 41 to 53 answer 401 unless a token is found and verified;
  line 55 reads the body; the rest is \<open>route\<close>.
\<close>

definition webhook :: "env \<Rightarrow> sessions \<Rightarrow> request \<Rightarrow> result" where
  "webhook e chat_sessions rq =
     (let token = bearer_token (auth_header rq)
      in case token of
           None \<Rightarrow> (unauthorized, chat_sessions, [])
         | Some tok \<Rightarrow>
             if tok = [] then (unauthorized, chat_sessions, [])
             else
               (case verify_token e tok of
                  Inl err \<Rightarrow> (unauthorized, chat_sessions, [])
                | Inr decoded_token \<Rightarrow>
                    (case body rq of
                       None \<Rightarrow> (Raises BadRequest, chat_sessions, [])
                     | Some event \<Rightarrow> route e chat_sessions event)))"

subsection \<open>Reading a result\<close>

definition outcome_of :: "result \<Rightarrow> outcome" where
  "outcome_of r = fst r"


definition calls_of :: "result \<Rightarrow> call list" where
  "calls_of r = snd (snd r)"



subsection \<open>Requests and events the properties speak of\<close>

text \<open>A request passes lines 41 to 53: a non-empty token is found and verified.\<close>

definition authenticated :: "env \<Rightarrow> request \<Rightarrow> bool" where
  "authenticated e rq =
     (case bearer_token (auth_header rq) of
        None \<Rightarrow> False
      | Some tok \<Rightarrow> tok \<noteq> [] \<and> verify_token e tok = Inr ())"

text \<open>A MESSAGE event of the conversation \<open>C\<close> with the non-empty text \<open>m\<close>.\<close>

definition message_event :: "json \<Rightarrow> string \<Rightarrow> json \<Rightarrow> bool" where
  "message_event event C m =
     (py_get event ''type'' JNull = Inr (JStr ''MESSAGE'')
      \<and> nested_get event ''message'' ''text'' (JStr []) = Inr m \<and> truthy m
      \<and> nested_get event ''space'' ''name'' JNull = Inr (JStr C))"



text \<open>The send call fails: a network error, a timeout, or a 4xx or 5xx status.\<close>

definition send_fails :: "server \<Rightarrow> bool" where
  "send_fails s =
     (case s of Unreachable \<Rightarrow> True | Silent \<Rightarrow> True | Answers st b \<Rightarrow> 400 \<le> st \<and> st < 600)"

subsection \<open>The reply as the specification words it\<close>

text \<open>
  The specification's reading of the reply: three candidates tried in order, the
  first non-empty one wins, and the sentinel stands in when none is. An absent
  field counts as \<open>None\<close>.
\<close>

definition get_field :: "(string \<times> json) list \<Rightarrow> string \<Rightarrow> json" where
  "get_field B k = (case map_of B k of None \<Rightarrow> JNull | Some v \<Rightarrow> v)"

definition get_subfield :: "(string \<times> json) list \<Rightarrow> string \<Rightarrow> string \<Rightarrow> json" where
  "get_subfield B k1 k2 = (case map_of B k1 of Some (JObj inner) \<Rightarrow> get_field inner k2 | other \<Rightarrow> JNull)"

definition spec_candidates :: "(string \<times> json) list \<Rightarrow> json list" where
  "spec_candidates B =
     [if get_subfield B ''chat'' ''role'' = JStr ''assistant'' then get_subfield B ''chat'' ''content''
      else JNull,
      get_subfield B ''assistant'' ''content'',
      get_field B ''content'']"

fun first_nonempty :: "json list \<Rightarrow> json" where
  "first_nonempty [] = JStr ''*(No response from AI)*''"
| "first_nonempty (c # cs) = (if truthy c then c else first_nonempty cs)"

definition spec_reply :: "(string \<times> json) list \<Rightarrow> json" where
  "spec_reply B = first_nonempty (spec_candidates B)"

text \<open>\<open>chat\<close> and \<open>assistant\<close>, where the body has them, are objects.\<close>

definition object_or_absent :: "(string \<times> json) list \<Rightarrow> string \<Rightarrow> bool" where
  "object_or_absent B k =
     (case map_of B k of None \<Rightarrow> True | Some (JObj inner) \<Rightarrow> True | Some other \<Rightarrow> False)"

subsection \<open>A concrete deployment for the examples\<close>

text \<open>
  The key service knows no key for the token \<open>nokey\<close>; \<open>jwt.decode\<close> accepts the
  token \<open>good\<close> under the arguments of lines 48 and 49 and rejects every other.
\<close>

definition example_env :: "(http_request \<Rightarrow> server) \<Rightarrow> env" where
  "example_env srv =
     \<lparr>GCP_PROJECT_NUMBER = ''1234'', OWUI_API_URL = ''http://owui'', OWUI_API_KEY = ''k'',
      get_signing_key_from_jwt = (\<lambda>t. if t = ''nokey'' then Inl KeyFetchFailure else Inr ''pub''),
      jwt_decode = (\<lambda>t k algs aud iss.
        if t = ''good'' \<and> k = ''pub'' \<and> algs = [''RS256''] \<and> aud = ''1234''
           \<and> iss = ''chat@system.gserviceaccount.com''
        then Inr () else Inl BadSignature),
      backend = srv, repr = (\<lambda>v. [])\<rparr>"

text \<open>A backend that answers the session creation (the request whose body is
  \<open>{"chat": {}}\<close>) with \<open>created\<close> and every other request with \<open>sent\<close>.\<close>

definition example_backend :: "server \<Rightarrow> server \<Rightarrow> http_request \<Rightarrow> server" where
  "example_backend created sent rq =
     (if json_body rq = JObj [(''chat'', JObj [])] then created else sent)"

definition example_request :: "json \<Rightarrow> request" where
  "example_request event = \<lparr>authorization = Some ''Bearer good'', body = Some event\<rparr>"

definition example_message :: "string \<Rightarrow> json" where
  "example_message ty =
     JObj [(''type'', JStr ty), (''space'', JObj [(''name'', JStr ''spaces/A'')]),
           (''message'', JObj [(''text'', JStr ''hi'')])]"

section \<open>Properties\<close>

subsection \<open>Shared facts\<close>





lemma webhook_authenticated:
  "authenticated e rq \<Longrightarrow>
   webhook e cs rq =
     (case body rq of None \<Rightarrow> (Raises BadRequest, cs, []) | Some event \<Rightarrow> route e cs event)"
  by (auto simp: webhook_def authenticated_def split: option.splits sum.splits)

text \<open>
  A header \<open>Bearer\<close>, a space and a non-empty token that does not itself contain
  \<open>Bearer\<close> and a space, passes the token check when the token verifies.
\<close>

lemma split_from_plain:
  "sep \<noteq> [] \<Longrightarrow> \<not> str_contains s sep \<Longrightarrow> split_from sep cur s = [cur @ s]"
  by (induction s arbitrary: cur) auto

lemma bearer_token_plain:
  assumes "\<not> str_contains tok ''Bearer ''"
  shows "bearer_token (''Bearer '' @ tok) = Some tok"
proof -
  have "split_from ''Bearer '' [] (''Bearer '' @ tok) = [[], tok]"
    using split_from_plain [of "''Bearer ''" tok "[]"] assms by simp
  then show ?thesis
    by (simp add: bearer_token_def py_split_def)
qed

lemma authenticated_bearer:
  assumes "authorization rq = Some (''Bearer '' @ tok)" and "tok \<noteq> []"
    and "\<not> str_contains tok ''Bearer ''" and "verify_token e tok = Inr ()"
  shows "authenticated e rq"
proof -
  from assms(1) have "auth_header rq = ''Bearer '' @ tok"
    by (simp add: auth_header_def)
  with bearer_token_plain [OF assms(3)] have "bearer_token (auth_header rq) = Some tok"
    by (simp only:)
  with assms(2,4) show ?thesis
    by (simp add: authenticated_def)
qed

lemma authenticated_example: "authenticated (example_env srv) (example_request ev)"
  by (simp add: authenticated_def example_request_def auth_header_def bearer_token_def
      py_split_def verify_token_def example_env_def)

lemma route_message:
  "message_event event C m \<Longrightarrow> route e cs event = relay e cs (KStr C) m"
  by (simp add: message_event_def route_def)



lemma relay_present:
  "cs k = Some cid \<Longrightarrow> relay e cs k m = forward e cs [] cid m"
  by (simp add: relay_def)




lemma example_message_event: "message_event (example_message ''MESSAGE'') ''spaces/A'' (JStr ''hi'')"
  by (simp add: message_event_def example_message_def nested_get_def)



lemma example_body: "body (example_request ev) = Some ev"
  by (simp add: example_request_def)

lemma chat_turn_object:
  "object_or_absent B ''chat'' \<Longrightarrow>
   chat_turn (JObj B) =
     Inr (if get_subfield B ''chat'' ''role'' = JStr ''assistant'' \<and> truthy (get_subfield B ''chat'' ''content'')
          then get_subfield B ''chat'' ''content'' else JStr [])"
  by (auto simp: chat_turn_def object_or_absent_def get_subfield_def get_field_def
      split: option.splits json.splits)

lemma other_fields_object:
  "object_or_absent B ''assistant'' \<Longrightarrow>
   other_fields (JObj B) =
     Inr (if truthy (get_subfield B ''assistant'' ''content'') then get_subfield B ''assistant'' ''content''
          else case map_of B ''content'' of None \<Rightarrow> JStr [] | Some v \<Rightarrow> v)"
  by (auto simp: other_fields_def object_or_absent_def get_subfield_def get_field_def
      split: option.splits json.splits)

lemma extract_reply_object:
  assumes "object_or_absent B ''chat''" and "object_or_absent B ''assistant''"
  shows "extract_reply (JObj B) = Inr (spec_reply B)"
  using assms
  by (simp add: extract_reply_def chat_turn_object other_fields_object spec_reply_def
      spec_candidates_def no_response_text_def get_field_def split: option.splits)

lemma example_message_any:
  "py_get (example_message ty) ''type'' JNull = Inr (JStr ty)"
  "nested_get (example_message ty) ''message'' ''text'' (JStr []) = Inr (JStr ''hi'')"
  "nested_get (example_message ty) ''space'' ''name'' JNull = Inr (JStr ''spaces/A'')"
  by (simp_all add: example_message_def nested_get_def)

lemma webhook_example:
  "webhook (example_env srv) cs (example_request ev) = route (example_env srv) cs ev"
  by (simp add: webhook_authenticated [OF authenticated_example] example_body)

lemma route_default:
  assumes "py_get event ''type'' JNull = Inr ty"
    and "ty \<noteq> JStr ''ADDED_TO_SPACE''" and "ty \<noteq> JStr ''REMOVED_FROM_SPACE''"
    and "nested_get event ''message'' ''text'' (JStr []) = Inr m"
  shows "route e cs event =
     (if \<not> truthy m then (empty_reply, cs, [])
      else case nested_get event ''space'' ''name'' JNull of
             Inl ex \<Rightarrow> (Raises ex, cs, [])
           | Inr space_id \<Rightarrow>
               (case py_hash space_id of
                  Inl ex \<Rightarrow> (Raises ex, cs, [])
                | Inr k \<Rightarrow> relay e cs k m))"
  using assms by (simp add: route_def)

lemma example_backend_answers:
  "backend (example_env (example_backend created sent)) (create_request (example_env srv)) = created"
  "backend (example_env (example_backend created sent)) (send_request (example_env srv) cid m) = sent"
  by (simp_all add: example_env_def example_backend_def create_request_def send_request_def)






text \<open>Joining: the greeting names \<open>there\<close> when the event gives no display name.\<close>

lemma added_to_space_greeting:
  assumes "authenticated e rq" and "body rq = Some event"
    and "py_get event ''type'' JNull = Inr (JStr ''ADDED_TO_SPACE'')"
    and "nested_get event ''user'' ''displayName'' (JStr ''there'') = Inr (JStr ''there'')"
  shows "webhook e cs rq
     = (Response 200 (JObj [(''text'',
          JStr (''Hello there, I'' @ [CHR 0x27] @ ''m your OpenWebUI bot! Ask me anything.''))]), cs, [])"
  using assms by (simp add: webhook_authenticated route_def text_reply_def)

subsection \<open>Rejected requests\<close>



subsection \<open>One session per conversation\<close>



subsection \<open>The reply text\<close>

text \<open>
  Claim C3, as stated, fails: the body \<open>{"chat": null}\<close> of a successful send
  yields no text by any of the three ways, and the handler raises AttributeError
  at line 115 instead of answering with the sentinel.
\<close>

theorem reply_extraction_counterexample:
  "extract_reply (JObj [(''chat'', JNull)]) = Inl AttributeError
   \<and> outcome_of (forward (example_env (\<lambda>rq. Answers 200 (Some (JObj [(''chat'', JNull)]))))
        Map.empty [] (JStr ''s1'') (JStr ''hi'')) = Raises AttributeError"
  by (simp add: extract_reply_def chat_turn_def forward_def requests_post_def example_env_def
      raise_for_status_def outcome_of_def)


text \<open>
  Claim C3, amended. For every successful answer to the send call whose body \<open>B\<close> is a
  JSON object in which \<open>chat\<close> and \<open>assistant\<close>, where present, are objects, the
  reply text is the first non-empty of: \<open>B['chat']['content']\<close> when
  \<open>B['chat']['role']\<close> is \<open>assistant\<close>; \<open>B['assistant']['content']\<close>;
  \<open>B['content']\<close>; and the sentinel \<open>*(No response from AI)*\<close> when none is
  non-empty. The handler answers with that text at status 200, and the session
  dictionary is unchanged.
\<close>

theorem reply_extraction:
  assumes "backend e (send_request e chat_id user_message) = Answers st (Some (JObj B))"
    and "\<not> raise_for_status st"
    and "object_or_absent B ''chat''" and "object_or_absent B ''assistant''"
  shows "extract_reply (JObj B) = Inr (spec_reply B)
     \<and> forward e chat_sessions calls chat_id user_message
         = (Response 200 (JObj [(''text'', spec_reply B)]), chat_sessions,
            calls @ [SendMessage (send_request e chat_id user_message)])"
  using assms
  by (simp add: forward_def requests_post_def extract_reply_object text_reply_def)

theorem reply_extraction_witness:
  "extract_reply (JObj [(''chat'', JObj [(''role'', JStr ''assistant''), (''content'', JStr ''hi'')])])
     = Inr (JStr ''hi'')
   \<and> extract_reply (JObj [(''content'', JStr ''hello'')]) = Inr (JStr ''hello'')
   \<and> extract_reply (JObj []) = Inr (JStr ''*(No response from AI)*'')
   \<and> forward (example_env (\<lambda>rq. Answers 200 (Some (JObj [])))) Map.empty [] (JStr ''s1'') (JStr ''hi'')
       = (Response 200 (JObj [(''text'', JStr ''*(No response from AI)*'')]), Map.empty,
          [SendMessage (send_request (example_env (\<lambda>rq. Answers 200 (Some (JObj []))))
             (JStr ''s1'') (JStr ''hi''))])"
proof -
  let ?hi = "[(''chat'', JObj [(''role'', JStr ''assistant''), (''content'', JStr ''hi'')])]"
  let ?hello = "[(''content'', JStr ''hello'')]"
  have ok: "\<not> raise_for_status 200"
    by (simp add: raise_for_status_def)
  have srv: "backend (example_env (\<lambda>rq. Answers 200 (Some (JObj B))))
      (send_request (example_env (\<lambda>rq. Answers 200 (Some (JObj B)))) (JStr ''s1'') (JStr ''hi''))
      = Answers 200 (Some (JObj B))" for B
    by (simp add: example_env_def)
  have shape: "object_or_absent ?hi ''chat''" "object_or_absent ?hi ''assistant''"
    "object_or_absent ?hello ''chat''" "object_or_absent ?hello ''assistant''"
    "object_or_absent [] ''chat''" "object_or_absent [] ''assistant''"
    by (simp_all add: object_or_absent_def)
  have replies: "spec_reply ?hi = JStr ''hi''" "spec_reply ?hello = JStr ''hello''"
    "spec_reply [] = JStr ''*(No response from AI)*''"
    by (simp_all add: spec_reply_def spec_candidates_def get_subfield_def get_field_def)
  note a = reply_extraction [OF srv ok shape(1) shape(2), where chat_sessions = Map.empty and calls = "[]"]
  note b = reply_extraction [OF srv ok shape(3) shape(4), where chat_sessions = Map.empty and calls = "[]"]
  note c = reply_extraction [OF srv ok shape(5) shape(6), where chat_sessions = Map.empty and calls = "[]"]
  from a b c show ?thesis
    by (simp add: replies)
qed

subsection \<open>A session answer without an identifier\<close>





subsection \<open>Events of other types\<close>

text \<open>
  Claim C5, as stated, fails: the handler tells ADDED_TO_SPACE and
  REMOVED_FROM_SPACE apart and takes every other event as a message (line 72).
  An authenticated CARD_CLICKED event that carries a message text reaches the
  backend: here the session-creating call is made, and as the backend is down the
  answer is the apology, not an empty body.
\<close>

theorem unknown_event_counterexample:
  "calls_of (webhook (example_env (\<lambda>rq. Unreachable)) Map.empty
       (example_request (example_message ''CARD_CLICKED'')))
     = [CreateSession (create_request (example_env (\<lambda>rq. Unreachable)))]
   \<and> outcome_of (webhook (example_env (\<lambda>rq. Unreachable)) Map.empty
       (example_request (example_message ''CARD_CLICKED'')))
     = Response 200 (JObj [(''text'', JStr apology_text)])"
proof -
  let ?e = "example_env (\<lambda>rq. Unreachable)"
  have "route ?e Map.empty (example_message ''CARD_CLICKED'')
      = relay ?e Map.empty (KStr ''spaces/A'') (JStr ''hi'')"
    by (simp add: route_default [OF example_message_any(1) _ _ example_message_any(2)]
        example_message_any(3))
  moreover have "backend ?e (create_request ?e) = Unreachable"
    by (simp add: example_env_def)
  ultimately show ?thesis
    by (simp add: webhook_example relay_def requests_post_def calls_of_def outcome_of_def
        text_reply_def)
qed

text \<open>
  Claim C5, amended. For every authenticated event that is a JSON object whose
  type is none of ADDED_TO_SPACE, REMOVED_FROM_SPACE and MESSAGE and that carries no
  non-empty \<open>message.text\<close> (no \<open>message\<close>, or a \<open>message\<close> object whose
  \<open>text\<close> is absent or empty), the handler answers status 200 with an empty JSON
  body, makes no backend call and leaves the session dictionary unchanged.
\<close>

theorem unknown_event_without_text_is_noop:
  assumes auth: "authenticated e rq" and ev: "body rq = Some event"
    and ty: "py_get event ''type'' JNull = Inr ty"
    and other: "ty \<noteq> JStr ''ADDED_TO_SPACE''" "ty \<noteq> JStr ''REMOVED_FROM_SPACE''"
      "ty \<noteq> JStr ''MESSAGE''"
    and msg_text: "nested_get event ''message'' ''text'' (JStr []) = Inr m" and empty: "\<not> truthy m"
  shows "webhook e chat_sessions rq = (Response 200 (JObj []), chat_sessions, [])"
  using auth ev empty
  by (simp add: webhook_authenticated route_default [OF ty other(1) other(2) msg_text] empty_reply_def)

theorem unknown_event_without_text_witness:
  "webhook (example_env (\<lambda>rq. Unreachable)) Map.empty
      (example_request (JObj [(''type'', JStr ''CARD_CLICKED'')]))
     = (Response 200 (JObj []), Map.empty, [])"
  by (rule unknown_event_without_text_is_noop [OF authenticated_example example_body,
        where ty = "JStr ''CARD_CLICKED''" and m = "JStr []"])
    (simp_all add: nested_get_def)

subsection \<open>A failed send\<close>

text \<open>
  Claim C6, as stated, fails: \<open>raise_for_status\<close> raises for a 4xx or 5xx status
  only, so an answer with the non-2xx status 300 is not a failure to the handler,
  which replies with the text found in its body.
\<close>

theorem send_failure_counterexample:
  "outcome_of (webhook
      (example_env (\<lambda>rq. Answers 300 (Some (JObj [(''content'', JStr ''pick one'')]))))
      [KStr ''spaces/A'' \<mapsto> JStr ''s1''] (example_request (example_message ''MESSAGE'')))
     = Response 200 (JObj [(''text'', JStr ''pick one'')])"
proof -
  let ?e = "example_env (\<lambda>rq. Answers 300 (Some (JObj [(''content'', JStr ''pick one'')])))"
  have "webhook ?e [KStr ''spaces/A'' \<mapsto> JStr ''s1''] (example_request (example_message ''MESSAGE''))
      = forward ?e [KStr ''spaces/A'' \<mapsto> JStr ''s1''] [] (JStr ''s1'') (JStr ''hi'')"
    by (simp add: webhook_example route_message [OF example_message_event] relay_present)
  moreover have "backend ?e rq = Answers 300 (Some (JObj [(''content'', JStr ''pick one'')]))" for rq
    by (simp add: example_env_def)
  ultimately show ?thesis
    by (simp add: forward_def requests_post_def raise_for_status_def extract_reply_def
        chat_turn_def other_fields_def outcome_of_def text_reply_def)
qed

text \<open>
  Claim C6, amended. For every authenticated non-empty MESSAGE of a conversation
  whose session record exists, if the send call fails by a network error, a
  timeout, or a 4xx or 5xx status, the handler answers status 200 with the fixed
  service-unavailable text, its only backend call is that send, and the session
  dictionary is unchanged.
\<close>

theorem send_failure_preserves_session:
  assumes auth: "authenticated e rq" and ev: "body rq = Some event"
    and msg: "message_event event C m" and known: "chat_sessions (KStr C) = Some chat_id"
    and fails: "send_fails (backend e (send_request e chat_id m))"
  shows "webhook e chat_sessions rq
           = (Response 200 (JObj [(''text'', JStr unavailable_text)]), chat_sessions,
              [SendMessage (send_request e chat_id m)])"
proof -
  have "webhook e chat_sessions rq = forward e chat_sessions [] chat_id m"
    using auth ev msg known
    by (simp add: webhook_authenticated route_message [of event C m] relay_present)
  moreover have "timeout (send_request e chat_id m) = Some 15"
    by (simp add: send_request_def)
  ultimately show ?thesis
    using fails
    by (simp add: forward_def requests_post_def send_fails_def raise_for_status_def
        text_reply_def split: server.splits)
qed

theorem send_failure_witness:
  "webhook (example_env (\<lambda>rq. Answers 503 None)) [KStr ''spaces/A'' \<mapsto> JStr ''s1'']
      (example_request (example_message ''MESSAGE''))
     = (Response 200 (JObj [(''text'', JStr unavailable_text)]), [KStr ''spaces/A'' \<mapsto> JStr ''s1''],
        [SendMessage (send_request (example_env (\<lambda>rq. Answers 503 None)) (JStr ''s1'') (JStr ''hi''))])
   \<and> webhook (example_env (\<lambda>rq. Silent)) [KStr ''spaces/A'' \<mapsto> JStr ''s1'']
      (example_request (example_message ''MESSAGE''))
     = (Response 200 (JObj [(''text'', JStr unavailable_text)]), [KStr ''spaces/A'' \<mapsto> JStr ''s1''],
        [SendMessage (send_request (example_env (\<lambda>rq. Silent)) (JStr ''s1'') (JStr ''hi''))])"
proof
  show "webhook (example_env (\<lambda>rq. Answers 503 None)) [KStr ''spaces/A'' \<mapsto> JStr ''s1'']
      (example_request (example_message ''MESSAGE''))
     = (Response 200 (JObj [(''text'', JStr unavailable_text)]), [KStr ''spaces/A'' \<mapsto> JStr ''s1''],
        [SendMessage (send_request (example_env (\<lambda>rq. Answers 503 None)) (JStr ''s1'') (JStr ''hi''))])"
    by (rule send_failure_preserves_session [OF authenticated_example example_body
          example_message_event])
      (simp_all add: send_fails_def example_env_def)
  show "webhook (example_env (\<lambda>rq. Silent)) [KStr ''spaces/A'' \<mapsto> JStr ''s1'']
      (example_request (example_message ''MESSAGE''))
     = (Response 200 (JObj [(''text'', JStr unavailable_text)]), [KStr ''spaces/A'' \<mapsto> JStr ''s1''],
        [SendMessage (send_request (example_env (\<lambda>rq. Silent)) (JStr ''s1'') (JStr ''hi''))])"
    by (rule send_failure_preserves_session [OF authenticated_example example_body
          example_message_event])
      (simp_all add: send_fails_def example_env_def)
qed

subsection \<open>Exceptions that leave the handler\<close>

text \<open>
  Claim C7 asks that no authenticated request makes the handler raise. The code
  guards both backend calls with \<open>try\<close>, but not the three places the claim
  names: an authenticated request whose body is not JSON raises at line 55 (and one
  whose body is JSON but no object, at line 59); a session answer with status 200
  and a body that is not JSON raises at line 90; a send answer of that kind raises
  at line 109.
\<close>

theorem unhandled_exceptions:
  "webhook (example_env (\<lambda>rq. Unreachable)) Map.empty
      \<lparr>authorization = Some ''Bearer good'', body = None\<rparr>
     = (Raises BadRequest, Map.empty, [])
   \<and> outcome_of (webhook (example_env (\<lambda>rq. Unreachable)) Map.empty
        (example_request (JArr []))) = Raises AttributeError
   \<and> outcome_of (webhook (example_env (example_backend (Answers 200 None) Unreachable)) Map.empty
        (example_request (example_message ''MESSAGE''))) = Raises JSONDecodeError
   \<and> outcome_of (webhook (example_env (\<lambda>rq. Answers 200 None)) [KStr ''spaces/A'' \<mapsto> JStr ''s1'']
        (example_request (example_message ''MESSAGE''))) = Raises JSONDecodeError"
proof (intro conjI)
  have "authenticated (example_env (\<lambda>rq. Unreachable))
      \<lparr>authorization = Some ''Bearer good'', body = None\<rparr>"
    using authenticated_example [of "\<lambda>rq. Unreachable" JNull]
    by (simp add: authenticated_def example_request_def auth_header_def)
  then show "webhook (example_env (\<lambda>rq. Unreachable)) Map.empty
      \<lparr>authorization = Some ''Bearer good'', body = None\<rparr>
     = (Raises BadRequest, Map.empty, [])"
    by (simp add: webhook_authenticated)
  show "outcome_of (webhook (example_env (\<lambda>rq. Unreachable)) Map.empty
        (example_request (JArr []))) = Raises AttributeError"
    by (simp add: webhook_example route_def outcome_of_def)
  show "outcome_of (webhook (example_env (example_backend (Answers 200 None) Unreachable)) Map.empty
        (example_request (example_message ''MESSAGE''))) = Raises JSONDecodeError"
    by (simp add: webhook_example route_message [OF example_message_event] relay_def
        requests_post_def example_backend_answers raise_for_status_def chat_id_of_def
        outcome_of_def)
  have "backend (example_env (\<lambda>rq. Answers 200 None)) rq = Answers 200 None" for rq
    by (simp add: example_env_def)
  then show "outcome_of (webhook (example_env (\<lambda>rq. Answers 200 None))
        [KStr ''spaces/A'' \<mapsto> JStr ''s1''] (example_request (example_message ''MESSAGE'')))
      = Raises JSONDecodeError"
    by (simp add: webhook_example route_message [OF example_message_event] relay_present
        forward_def requests_post_def raise_for_status_def outcome_of_def)
qed

subsection \<open>Time limits of the backend calls\<close>

text \<open>
  Claim C8 asks for a time limit on both backend calls. The send call passes
  \<open>timeout=15\<close>; the session-creating call passes none, and when the backend
  accepts the connection and stays silent the handler never returns.
\<close>

theorem create_session_has_no_timeout:
  "timeout (create_request e) = None
   \<and> timeout (send_request e chat_id user_message) = Some 15
   \<and> webhook (example_env (example_backend Silent Unreachable)) Map.empty
        (example_request (example_message ''MESSAGE''))
      = (NoReturn, Map.empty,
         [CreateSession (create_request (example_env (example_backend Silent Unreachable)))])"
proof (intro conjI)
  show none: "timeout (create_request e) = None" for e
    by (simp add: create_request_def)
  show "timeout (send_request e chat_id user_message) = Some 15"
    by (simp add: send_request_def)
  show "webhook (example_env (example_backend Silent Unreachable)) Map.empty
        (example_request (example_message ''MESSAGE''))
      = (NoReturn, Map.empty,
         [CreateSession (create_request (example_env (example_backend Silent Unreachable)))])"
    by (simp add: webhook_example route_message [OF example_message_event] relay_def
        requests_post_def example_backend_answers none)
qed

subsection \<open>Messages without a space name\<close>



end
